theory Spec2Isabelle
  imports Main "HOL-Library.Word" "HOL-Library.Multiset" "HOL-Library.Sublist"
begin

section \<open>JavaScript strings\<close>

text \<open>
  A JavaScript string is a sequence of UTF-16 code units; \<open>split\<close>, \<open>replace\<close> with a
  non-unicode regular expression, \<open>substring\<close> and indexing all work on code units.
  String literals of the source that are plain ASCII are written \<open>str ''...''\<close>.
\<close>

type_synonym unit16 = "16 word"
type_synonym jsstring = "unit16 list"

definition str :: "string \<Rightarrow> jsstring" where
  "str s = map (\<lambda>c. of_char c) s"

text \<open>\<open>s.split(sep)\<close> for a separator of one code unit: never an empty array.\<close>

fun split_str :: "unit16 \<Rightarrow> jsstring \<Rightarrow> jsstring list" where
  "split_str sep [] = [[]]"
| "split_str sep (c # cs) =
     (if c = sep then [] # split_str sep cs
      else (case split_str sep cs of [] \<Rightarrow> [[c]] | p # ps \<Rightarrow> (c # p) # ps))"

text \<open>\<open>parts.join(sep)\<close>; the empty array joins to the empty string.\<close>

fun join_str :: "unit16 \<Rightarrow> jsstring list \<Rightarrow> jsstring" where
  "join_str sep [] = []"
| "join_str sep [p] = p"
| "join_str sep (p # q # ps) = p @ sep # join_str sep (q # ps)"

text \<open>
  \<open>parts[0]\<close> inside a template literal: an empty array gives \<open>undefined\<close>, which the
  template renders as the text \<open>undefined\<close>.
\<close>

definition first_or_undefined :: "jsstring list \<Rightarrow> jsstring" where
  "first_or_undefined parts = (case parts of [] \<Rightarrow> str ''undefined'' | p # _ \<Rightarrow> p)"

text \<open>
  The class \<open>\s\<close> of a non-unicode regular expression: the ECMAScript WhiteSpace and
  LineTerminator code points, all of them single code units.
\<close>

definition is_space :: "unit16 \<Rightarrow> bool" where
  "is_space c \<longleftrightarrow>
     c \<in> {0x09, 0x0A, 0x0B, 0x0C, 0x0D, 0x20, 0xA0, 0x1680, 0x2028, 0x2029, 0x202F,
          0x205F, 0x3000, 0xFEFF} \<or> (0x2000 \<le> c \<and> c \<le> 0x200A)"

text \<open>
  \<open>s.replace(/\s+/g, '_')\<close>: every maximal run of whitespace becomes one underscore. The
  flag says whether the previous code unit belonged to a run already replaced.
\<close>

fun replace_runs :: "bool \<Rightarrow> jsstring \<Rightarrow> jsstring" where
  "replace_runs in_run [] = []"
| "replace_runs in_run (c # cs) =
     (if is_space c then (if in_run then replace_runs True cs else 0x5F # replace_runs True cs)
      else c # replace_runs False cs)"

definition replace_whitespace :: "jsstring \<Rightarrow> jsstring" where
  "replace_whitespace s = replace_runs False s"

text \<open>
  Number-to-string conversion of a non-negative integer below \<open>10^21\<close>: its decimal digits.
  \<open>Date.now()\<close> and \<open>Math.round(Math.random() * 1E9)\<close> are such numbers.
\<close>

function number_str :: "nat \<Rightarrow> jsstring" where
  "number_str n =
     (if n < 10 then [of_nat (48 + n)]
      else number_str (n div 10) @ [of_nat (48 + n mod 10)])"
  by pat_completeness auto
termination
  by (relation "measure id") auto

declare number_str.simps [simp del]

text \<open>
  \<open>s.toLowerCase()\<close>. The letters A to Z are mapped as ECMAScript does, and so are the
  only two code points outside Basic Latin whose lower case contains a Basic Latin letter
  (U+0130 and the Kelvin sign U+212A). Every other code unit is kept: its lower case is
  again outside Basic Latin, so comparisons with the ASCII extension tables below are
  not affected.
\<close>

definition lower_unit :: "unit16 \<Rightarrow> jsstring" where
  "lower_unit c =
     (if 0x41 \<le> c \<and> c \<le> 0x5A then [c + 0x20]
      else if c = 0x0130 then [0x69, 0x0307]
      else if c = 0x212A then [0x6B]
      else [c])"

definition toLowerCase :: "jsstring \<Rightarrow> jsstring" where
  "toLowerCase s = concat (map lower_unit s)"

text \<open>\<open>s.substring(n)\<close> and \<open>s.slice(a, b)\<close> for \<open>0 \<le> a \<le> b\<close>.\<close>

definition substring :: "nat \<Rightarrow> jsstring \<Rightarrow> jsstring" where
  "substring n s = drop n s"

definition slice_str :: "jsstring \<Rightarrow> int \<Rightarrow> int \<Rightarrow> jsstring" where
  "slice_str s a b = take (nat b - nat a) (drop (nat a) s)"

section \<open>\<open>path.extname\<close>\<close>

text \<open>
  The POSIX \<open>path.extname\<close> of Node.js scans the path from its last code unit to its
  first, with five local variables, and stops at the first separator that follows a
  component. The scan is modelled with the same variables; \<open>extname_scan p i s\<close> has
  still to visit the indices below \<open>i\<close>.
\<close>

record ext_scan =
  startDot :: int
  startPart :: int
  endPos :: int
  matchedSlash :: bool
  preDotState :: int

definition CHAR_FORWARD_SLASH :: unit16 where "CHAR_FORWARD_SLASH = 0x2F"
definition CHAR_DOT :: unit16 where "CHAR_DOT = 0x2E"
definition CHAR_DASH :: unit16 where "CHAR_DASH = 0x2D"

fun extname_scan :: "jsstring \<Rightarrow> nat \<Rightarrow> ext_scan \<Rightarrow> ext_scan" where
  "extname_scan p 0 s = s"
| "extname_scan p (Suc i) s =
     (let code = p ! i in
      if code = CHAR_FORWARD_SLASH then
        (if \<not> matchedSlash s then s\<lparr>startPart := int i + 1\<rparr> else extname_scan p i s)
      else
        (let s1 = (if endPos s = - 1 then s\<lparr>matchedSlash := False, endPos := int i + 1\<rparr>
                   else s);
             s2 = (if code = CHAR_DOT then
                     (if startDot s1 = - 1 then s1\<lparr>startDot := int i\<rparr>
                      else if preDotState s1 \<noteq> 1 then s1\<lparr>preDotState := 1\<rparr>
                      else s1)
                   else if startDot s1 \<noteq> - 1 then s1\<lparr>preDotState := - 1\<rparr>
                   else s1)
         in extname_scan p i s2))"

definition extname :: "jsstring \<Rightarrow> jsstring" where
  "extname p =
     (let s = extname_scan p (length p)
                \<lparr>startDot = - 1, startPart = 0, endPos = - 1, matchedSlash = True,
                 preDotState = 0\<rparr>
      in if startDot s = - 1 \<or> endPos s = - 1 \<or> preDotState s = 0 \<or>
            (preDotState s = 1 \<and> startDot s = endPos s - 1 \<and> startDot s = startPart s + 1)
         then []
         else slice_str p (startDot s) (endPos s))"

section \<open>Filename Generator (\<open>storage.filename\<close>)\<close>

text \<open>
  \<open>now\<close> is the value of \<open>Date.now()\<close> (milliseconds since the epoch) and \<open>rnd\<close> the value
  of \<open>Math.round(Math.random() * 1E9)\<close>; both are inputs of the model.
\<close>

definition storage_filename :: "nat \<Rightarrow> nat \<Rightarrow> jsstring \<Rightarrow> jsstring" where
  "storage_filename now rnd originalname =
     (let uniqueSuffix = number_str now @ [CHAR_DASH] @ number_str rnd;
          originalName = replace_whitespace originalname;
          safeFilename = uniqueSuffix @ [CHAR_DASH] @ originalName
      in safeFilename)"

section \<open>Gallery Lister: metadata derived from a filename\<close>

datatype media_type = Image_type | Video_type | Unknown_type

definition imageExtensions :: "jsstring list" where
  "imageExtensions =
     [str ''jpg'', str ''jpeg'', str ''png'', str ''gif'', str ''webp'', str ''bmp'', str ''svg'']"

definition videoExtensions :: "jsstring list" where
  "videoExtensions =
     [str ''mp4'', str ''avi'', str ''mov'', str ''wmv'', str ''flv'', str ''webm'', str ''mkv'']"

definition type_of_filename :: "jsstring \<Rightarrow> media_type" where
  "type_of_filename filename =
     (let extension = substring 1 (toLowerCase (extname filename)) in
      if extension \<in> set imageExtensions then Image_type
      else if extension \<in> set videoExtensions then Video_type
      else Unknown_type)"

text \<open>
  The fixed beginning of every title: the code units of the eight characters that precede
  the interpolation in the template literal (K, U+1EF7, space, n, i, U+1EC7, m, space).
\<close>

definition title_prefix :: jsstring where
  "title_prefix = [0x4B, 0x1EF7, 0x20, 0x6E, 0x69, 0x1EC7, 0x6D, 0x20]"

definition title_stem :: "jsstring \<Rightarrow> jsstring" where
  "title_stem filename =
     first_or_undefined
       (split_str CHAR_DOT (join_str CHAR_DASH (drop 2 (split_str CHAR_DASH filename))))"

definition title_of_filename :: "jsstring \<Rightarrow> jsstring" where
  "title_of_filename filename = title_prefix @ title_stem filename"

section \<open>The file system\<close>

text \<open>
  The server keeps no state of its own: every request reads or changes the file system.
  It is modelled as a tree. A directory holds its entries in the order in which
  \<open>readdirSync\<close> reports them. \<open>Dangling\<close> is a symbolic link whose target lies in a
  directory that does not exist: \<open>statSync\<close> and \<open>existsSync\<close> follow links and fail on
  it, \<open>unlinkSync\<close> removes the link itself.
\<close>

record stats =
  stat_size :: nat
  birthtime :: int

datatype node = File stats | Dir stats "(jsstring \<times> node) list" | Dangling

datatype fs_error = ENOENT | ENOTDIR | EISDIR | EEXIST

text \<open>
  An absolute, normalised path: its components below the root, and whether the path
  string ends with a separator.
\<close>

type_synonym abs_path = "jsstring list \<times> bool"

text \<open>
  The component walk of \<open>normalizeString\<close> for an absolute path: empty components and
  \<open>.\<close> are dropped, \<open>..\<close> removes the component before it and is dropped at the root.
\<close>

fun normalize_parts :: "jsstring list \<Rightarrow> jsstring list \<Rightarrow> jsstring list" where
  "normalize_parts res [] = res"
| "normalize_parts res (seg # segs) =
     (if seg = [] \<or> seg = str ''.'' then normalize_parts res segs
      else if seg = str ''..'' then normalize_parts (butlast res) segs
      else normalize_parts (res @ [seg]) segs)"

text \<open>
  \<open>path.join(base, ...args)\<close> for an absolute \<open>base\<close>: the non-empty arguments are joined
  with separators behind the base and the whole is normalised.
\<close>

definition path_join :: "abs_path \<Rightarrow> jsstring list \<Rightarrow> abs_path" where
  "path_join base args =
     (let joined = join_str CHAR_FORWARD_SLASH (filter (\<lambda>a. a \<noteq> []) args);
          trailingSeparator =
            (if joined = [] then snd base else last joined = CHAR_FORWARD_SLASH)
      in (normalize_parts [] (fst base @ split_str CHAR_FORWARD_SLASH joined),
          trailingSeparator))"

fun lookup :: "node \<Rightarrow> jsstring list \<Rightarrow> fs_error + node" where
  "lookup n [] = Inr n"
| "lookup (Dir st entries) (c # cs) =
     (case map_of entries c of None \<Rightarrow> Inl ENOENT | Some n \<Rightarrow> lookup n cs)"
| "lookup (File st) (c # cs) = Inl ENOTDIR"
| "lookup Dangling (c # cs) = Inl ENOENT"

definition statSync :: "node \<Rightarrow> abs_path \<Rightarrow> fs_error + stats" where
  "statSync fs p =
     (case lookup fs (fst p) of
        Inl e \<Rightarrow> Inl e
      | Inr (File st) \<Rightarrow> (if snd p then Inl ENOTDIR else Inr st)
      | Inr (Dir st entries) \<Rightarrow> Inr st
      | Inr Dangling \<Rightarrow> Inl ENOENT)"

definition existsSync :: "node \<Rightarrow> abs_path \<Rightarrow> bool" where
  "existsSync fs p = (case statSync fs p of Inl e \<Rightarrow> False | Inr st \<Rightarrow> True)"

definition readdirSync :: "node \<Rightarrow> abs_path \<Rightarrow> fs_error + jsstring list" where
  "readdirSync fs p =
     (case lookup fs (fst p) of
        Inl e \<Rightarrow> Inl e
      | Inr (File st) \<Rightarrow> Inl ENOTDIR
      | Inr (Dir st entries) \<Rightarrow> Inr (map fst entries)
      | Inr Dangling \<Rightarrow> Inl ENOENT)"

text \<open>Removing the entry a path names; everything else stays as it is.\<close>

fun remove_entry :: "node \<Rightarrow> jsstring list \<Rightarrow> node" where
  "remove_entry (Dir st entries) [c] = Dir st (filter (\<lambda>e. fst e \<noteq> c) entries)"
| "remove_entry (Dir st entries) (c # cs) =
     Dir st (map (\<lambda>e. if fst e = c then (fst e, remove_entry (snd e) cs) else e) entries)"
| "remove_entry n cs = n"

definition unlinkSync :: "node \<Rightarrow> abs_path \<Rightarrow> fs_error + node" where
  "unlinkSync fs p =
     (case lookup fs (fst p) of
        Inl e \<Rightarrow> Inl e
      | Inr (File st) \<Rightarrow> (if snd p then Inl ENOTDIR else Inr (remove_entry fs (fst p)))
      | Inr (Dir st entries) \<Rightarrow> Inl EISDIR
      | Inr Dangling \<Rightarrow> (if snd p then Inl ENOENT else Inr (remove_entry fs (fst p))))"

text \<open>
  \<open>mkdirSync(dir, {recursive: true})\<close>: missing directories along the path are created
  with the given metadata, behind the entries already there.
\<close>

fun mkdirp :: "stats \<Rightarrow> node \<Rightarrow> jsstring list \<Rightarrow> fs_error + node" where
  "mkdirp st (Dir s entries) [] = Inr (Dir s entries)"
| "mkdirp st (Dir s entries) (c # cs) =
     (case map_of entries c of
        None \<Rightarrow>
          (case mkdirp st (Dir st []) cs of
             Inl e \<Rightarrow> Inl e
           | Inr n \<Rightarrow> Inr (Dir s (entries @ [(c, n)])))
      | Some child \<Rightarrow>
          (case mkdirp st child cs of
             Inl e \<Rightarrow> Inl e
           | Inr n \<Rightarrow> Inr (Dir s (map (\<lambda>e. if fst e = c then (c, n) else e) entries))))"
| "mkdirp st (File s) [] = Inl EEXIST"
| "mkdirp st (File s) (c # cs) = Inl ENOTDIR"
| "mkdirp st Dangling [] = Inl EEXIST"
| "mkdirp st Dangling (c # cs) = Inl ENOENT"

definition mkdirSync :: "stats \<Rightarrow> node \<Rightarrow> abs_path \<Rightarrow> fs_error + node" where
  "mkdirSync st fs p = mkdirp st fs (fst p)"

text \<open>
  Opening a path for writing and writing the whole content: a new regular file is put
  behind the entries of its directory, an existing regular file gets the new size and
  keeps its time of birth.
\<close>

fun write_entry :: "stats \<Rightarrow> node \<Rightarrow> jsstring list \<Rightarrow> fs_error + node" where
  "write_entry st (Dir s entries) [] = Inl EISDIR"
| "write_entry st (Dir s entries) [c] =
     (case map_of entries c of
        None \<Rightarrow> Inr (Dir s (entries @ [(c, File st)]))
      | Some (File old) \<Rightarrow>
          Inr (Dir s (map (\<lambda>e. if fst e = c then (c, File (old\<lparr>stat_size := stat_size st\<rparr>))
                               else e) entries))
      | Some (Dir d sub) \<Rightarrow> Inl EISDIR
      | Some Dangling \<Rightarrow> Inl ENOENT)"
| "write_entry st (Dir s entries) (c # cs) =
     (case map_of entries c of
        None \<Rightarrow> Inl ENOENT
      | Some child \<Rightarrow>
          (case write_entry st child cs of
             Inl e \<Rightarrow> Inl e
           | Inr n \<Rightarrow> Inr (Dir s (map (\<lambda>e. if fst e = c then (c, n) else e) entries))))"
| "write_entry st (File s) cs = Inl ENOTDIR"
| "write_entry st Dangling cs = Inl ENOENT"

definition writeFile :: "stats \<Rightarrow> node \<Rightarrow> abs_path \<Rightarrow> fs_error + node" where
  "writeFile st fs p = (if snd p then Inl EISDIR else write_entry st fs (fst p))"

section \<open>The host and the responses\<close>

text \<open>
  What the process takes from its host: the directory of the script (\<open>__dirname\<close>),
  the rendering of a time as a calendar date in the \<open>vi-VN\<close> locale and the host's time
  zone, and the installed version of the upload library. The sources do not fix that
  version, and the versions differ on a file of exactly \<open>limits.fileSize\<close> bytes: the
  ones that parse the request with busboy 1 refuse it as too large, the earlier ones
  accept it. \<open>refuses_at_limit\<close> says which kind is installed.
\<close>

record host =
  dirname :: abs_path
  toLocaleDateString :: "int \<Rightarrow> jsstring"
  refuses_at_limit :: bool

text \<open>
  The texts of the responses are Vietnamese sentences; each is named here by what it
  says. \<open>System_message\<close> is the message of a file-system exception.
\<close>

datatype message =
    No_file_chosen | Upload_succeeded | File_does_not_exist | File_deleted
  | Cannot_delete_file | Cannot_read_memories | File_too_large | Unexpected_field
  | Only_images_and_videos | System_message fs_error

record memory =
  filename :: jsstring
  type :: media_type
  title :: jsstring
  date :: jsstring
  size_bytes :: nat
  created :: int

datatype body =
    Memories "memory list"
  | Uploaded jsstring message nat
  | Deleted message
  | Failure message

record response =
  status :: nat
  body :: body

text \<open>A body of the shape \<open>{success: false, error}\<close>.\<close>

definition is_failure :: "body \<Rightarrow> bool" where
  "is_failure b = (case b of Failure m \<Rightarrow> True | _ \<Rightarrow> False)"

definition uploadDir :: "host \<Rightarrow> abs_path" where
  "uploadDir h = path_join (dirname h) [str ''anhkiniem'']"

section \<open>Gallery Lister (\<open>GET /api/memories\<close>)\<close>

text \<open>
  The body of the \<open>map\<close> callback: \<open>None\<close> is the \<open>null\<close> that the \<open>catch\<close> clause
  returns when \<open>statSync\<close> throws.
\<close>

definition memory_of :: "host \<Rightarrow> node \<Rightarrow> abs_path \<Rightarrow> jsstring \<Rightarrow> memory option" where
  "memory_of h fs memoriesDir name =
     (let filePath = path_join memoriesDir [name] in
      case statSync fs filePath of
        Inl error \<Rightarrow> None
      | Inr stats \<Rightarrow>
          Some \<lparr>filename = name,
                type = type_of_filename name,
                title = title_of_filename name,
                date = toLocaleDateString h (birthtime stats),
                size_bytes = stat_size stats,
                created = birthtime stats\<rparr>)"

text \<open>
  \<open>Array.prototype.sort\<close> with a comparator. ECMAScript requires the sort to be stable,
  and for a consistent comparator the stable sorted arrangement is unique; insertion from
  the right computes it.
\<close>

fun insert_by :: "('a \<Rightarrow> 'a \<Rightarrow> int) \<Rightarrow> 'a \<Rightarrow> 'a list \<Rightarrow> 'a list" where
  "insert_by cmp x [] = [x]"
| "insert_by cmp x (y # ys) =
     (if cmp x y \<le> 0 then x # y # ys else y # insert_by cmp x ys)"

definition sort_by :: "('a \<Rightarrow> 'a \<Rightarrow> int) \<Rightarrow> 'a list \<Rightarrow> 'a list" where
  "sort_by cmp xs = foldr (insert_by cmp) xs []"

text \<open>The comparator \<open>(a, b) => new Date(b.created) - new Date(a.created)\<close>.\<close>

definition newest_first :: "memory \<Rightarrow> memory \<Rightarrow> int" where
  "newest_first a b = created b - created a"

definition api_memories :: "host \<Rightarrow> node \<Rightarrow> response" where
  "api_memories h fs =
     (let memoriesDir = path_join (dirname h) [str ''anhkiniem''] in
      if \<not> existsSync fs memoriesDir then \<lparr>status = 200, body = Memories []\<rparr>
      else
        (case readdirSync fs memoriesDir of
           Inl error \<Rightarrow> \<lparr>status = 500, body = Failure Cannot_read_memories\<rparr>
         | Inr files \<Rightarrow>
             (let memories = List.map_filter (memory_of h fs memoriesDir) files
              in \<lparr>status = 200, body = Memories (sort_by newest_first memories)\<rparr>)))"

section \<open>Upload Acceptor (\<open>POST /upload\<close>)\<close>

text \<open>
  The file part of a multipart request as the upload middleware sees it; \<open>part_bytes\<close> is
  the number of bytes its stream delivers.
\<close>

record file_part =
  fieldname :: jsstring
  originalname :: jsstring
  mimetype :: jsstring
  part_bytes :: nat

datatype multer_code = LIMIT_FILE_SIZE | LIMIT_UNEXPECTED_FILE

datatype js_error = MulterError multer_code | PlainError message | SystemError fs_error

definition allowedImageTypes :: "jsstring list" where
  "allowedImageTypes =
     [str ''image/jpeg'', str ''image/jpg'', str ''image/png'', str ''image/gif'',
      str ''image/webp'']"

definition allowedVideoTypes :: "jsstring list" where
  "allowedVideoTypes =
     [str ''video/mp4'', str ''video/avi'', str ''video/mov'', str ''video/wmv'',
      str ''video/flv'', str ''video/webm'']"

text \<open>\<open>fileFilter\<close>: \<open>Inr True\<close> is \<open>cb(null, true)\<close>, \<open>Inl\<close> the error given to \<open>cb\<close>.\<close>

definition fileFilter :: "file_part \<Rightarrow> js_error + bool" where
  "fileFilter file =
     (if mimetype file \<in> set allowedImageTypes \<or> mimetype file \<in> set allowedVideoTypes
      then Inr True
      else Inl (PlainError Only_images_and_videos))"

definition fileSize :: nat where
  "fileSize = 20 * 1024 * 1024"

text \<open>
  The \<open>destination\<close> callback of the disk storage: the upload directory is created when
  it is absent. An exception of \<open>mkdirSync\<close> is thrown out of the callback.
\<close>

definition destination :: "host \<Rightarrow> nat \<Rightarrow> node \<Rightarrow> fs_error + node" where
  "destination h now fs =
     (if \<not> existsSync fs (uploadDir h)
      then mkdirSync \<lparr>stat_size = 0, birthtime = int now\<rparr> fs (uploadDir h)
      else Inr fs)"

text \<open>
  What \<open>upload.single('memory')\<close> does with a request: it calls the next handler with or
  without \<open>req.file\<close>, or hands an error to the error handlers, or an exception escapes
  from a storage callback and no handler is reached.
\<close>

datatype upload_outcome =
    Next "(jsstring \<times> nat) option"
  | NextError js_error
  | Uncaught fs_error

text \<open>
  The steps of the upload library, in its order. A request without a file part, or with
  a part that has no file name, passes through without \<open>req.file\<close>. A file in another
  field than \<open>memory\<close> is refused as unexpected. Then \<open>fileFilter\<close> decides, before any
  byte is stored. An accepted file is written under the upload directory with the
  generated name; a stream that delivers more than \<open>fileSize\<close> bytes (or exactly that
  many, where the installed library refuses at the limit) is cut off, the file is removed
  again and the error \<open>LIMIT_FILE_SIZE\<close> is raised. The pair in \<open>Next\<close> is
  \<open>req.file.filename\<close> and \<open>req.file.size\<close>.
\<close>

definition limit_reached :: "host \<Rightarrow> nat \<Rightarrow> bool" where
  "limit_reached h n \<longleftrightarrow> n > fileSize \<or> (n = fileSize \<and> refuses_at_limit h)"

definition upload_single ::
    "host \<Rightarrow> nat \<Rightarrow> nat \<Rightarrow> node \<Rightarrow> file_part option \<Rightarrow> node \<times> upload_outcome" where
  "upload_single h now rnd fs part =
     (case part of
        None \<Rightarrow> (fs, Next None)
      | Some file \<Rightarrow>
          if originalname file = [] then (fs, Next None)
          else if fieldname file \<noteq> str ''memory''
            then (fs, NextError (MulterError LIMIT_UNEXPECTED_FILE))
          else
            (case fileFilter file of
               Inl err \<Rightarrow> (fs, NextError err)
             | Inr includeFile \<Rightarrow>
                 if \<not> includeFile then (fs, Next None)
                 else
                   (case destination h now fs of
                      Inl e \<Rightarrow> (fs, Uncaught e)
                    | Inr fs1 \<Rightarrow>
                        (let safeFilename = storage_filename now rnd (originalname file);
                             finalPath = path_join (uploadDir h) [safeFilename];
                             written = min (part_bytes file) fileSize
                         in case writeFile \<lparr>stat_size = written, birthtime = int now\<rparr>
                                   fs1 finalPath of
                              Inl e \<Rightarrow> (fs1, NextError (SystemError e))
                            | Inr fs2 \<Rightarrow>
                                if limit_reached h (part_bytes file)
                                then (remove_entry fs2 (fst finalPath),
                                      NextError (MulterError LIMIT_FILE_SIZE))
                                else (fs2, Next (Some (safeFilename, part_bytes file)))))))"

text \<open>The error-handling middleware registered behind the routes.\<close>

definition error_middleware :: "js_error \<Rightarrow> response" where
  "error_middleware error =
     (case error of
        MulterError LIMIT_FILE_SIZE \<Rightarrow> \<lparr>status = 400, body = Failure File_too_large\<rparr>
      | MulterError LIMIT_UNEXPECTED_FILE \<Rightarrow> \<lparr>status = 400, body = Failure Unexpected_field\<rparr>
      | PlainError m \<Rightarrow> \<lparr>status = 500, body = Failure m\<rparr>
      | SystemError e \<Rightarrow> \<lparr>status = 500, body = Failure (System_message e)\<rparr>)"

text \<open>
  The route: the middleware, then the handler. \<open>None\<close> stands for a request that gets no
  response because an exception escaped.
\<close>

definition post_upload ::
    "host \<Rightarrow> nat \<Rightarrow> nat \<Rightarrow> node \<Rightarrow> file_part option \<Rightarrow> node \<times> response option" where
  "post_upload h now rnd fs part =
     (case upload_single h now rnd fs part of
        (fs', Next None) \<Rightarrow> (fs', Some \<lparr>status = 400, body = Failure No_file_chosen\<rparr>)
      | (fs', Next (Some (name, n))) \<Rightarrow>
          (fs', Some \<lparr>status = 200, body = Uploaded name Upload_succeeded n\<rparr>)
      | (fs', NextError err) \<Rightarrow> (fs', Some (error_middleware err))
      | (fs', Uncaught e) \<Rightarrow> (fs', None))"

section \<open>Item Deleter (\<open>DELETE /delete/:filename\<close>)\<close>

text \<open>
  \<open>filename\<close> is the decoded route parameter: any non-empty string, a separator included
  when the request path carries it percent-encoded.
\<close>

definition delete_file :: "host \<Rightarrow> node \<Rightarrow> jsstring \<Rightarrow> node \<times> response" where
  "delete_file h fs name =
     (let filePath = path_join (dirname h) [str ''anhkiniem'', name] in
      if \<not> existsSync fs filePath
      then (fs, \<lparr>status = 404, body = Failure File_does_not_exist\<rparr>)
      else
        (case unlinkSync fs filePath of
           Inl error \<Rightarrow> (fs, \<lparr>status = 500, body = Failure Cannot_delete_file\<rparr>)
         | Inr fs' \<Rightarrow> (fs', \<lparr>status = 200, body = Deleted File_deleted\<rparr>)))"

section \<open>Vocabulary of the specification\<close>

text \<open>
  A name that is one path component: not empty, without a separator, and neither \<open>.\<close>
  nor \<open>..\<close>. The names that a directory can hold are of this kind.
\<close>

definition is_component :: "jsstring \<Rightarrow> bool" where
  "is_component name \<longleftrightarrow>
     name \<noteq> [] \<and> CHAR_FORWARD_SLASH \<notin> set name \<and> name \<noteq> str ''.'' \<and> name \<noteq> str ''..''"

text \<open>A name with a path-traversal segment: one of its components is \<open>..\<close>.\<close>

definition has_traversal_segment :: "jsstring \<Rightarrow> bool" where
  "has_traversal_segment name \<longleftrightarrow> str ''..'' \<in> set (split_str CHAR_FORWARD_SLASH name)"


text \<open>The metadata of an entry of the storage directory can be read.\<close>

definition readable :: "host \<Rightarrow> node \<Rightarrow> jsstring \<Rightarrow> bool" where
  "readable h fs name =
     (case statSync fs (path_join (uploadDir h) [name]) of Inl e \<Rightarrow> False | Inr st \<Rightarrow> True)"

text \<open>A name without its extension, the extension being what \<open>path.extname\<close> returns.\<close>

definition name_without_extension :: "jsstring \<Rightarrow> jsstring" where
  "name_without_extension name = take (length name - length (extname name)) name"

text \<open>The allow-list of declared types as the specification words it.\<close>

definition spec_allow_list :: "jsstring list" where
  "spec_allow_list =
     [str ''image/jpeg'', str ''image/png'', str ''image/gif'', str ''image/webp'',
      str ''video/mp4'', str ''video/avi'', str ''video/mov'', str ''video/wmv'',
      str ''video/flv'', str ''video/webm'']"


section \<open>Example states\<close>

definition dir_stats :: stats where
  "dir_stats = \<lparr>stat_size = 4096, birthtime = 0\<rparr>"

definition example_host :: host where
  "example_host =
     \<lparr>dirname = ([str ''app''], False), toLocaleDateString = (\<lambda>t. []),
      refuses_at_limit = True\<rparr>"

definition photo_name :: jsstring where
  "photo_name = str ''1700000000000-123456789-My_Photo.png''"

text \<open>
  A storage directory with three files born at the times 200, 100 and 300, and a
  dangling link between them.
\<close>

definition example_fs :: node where
  "example_fs =
     Dir dir_stats
       [(str ''app'', Dir dir_stats
          [(str ''server.js'', File \<lparr>stat_size = 2048, birthtime = 50\<rparr>),
           (str ''anhkiniem'', Dir dir_stats
              [(str ''1-2-b.mp4'', File \<lparr>stat_size = 20, birthtime = 200\<rparr>),
               (str ''link'', Dangling),
               (photo_name, File \<lparr>stat_size = 10, birthtime = 100\<rparr>),
               (str ''3-4-c.txt'', File \<lparr>stat_size = 30, birthtime = 300\<rparr>)])])]"

definition empty_fs :: node where
  "empty_fs =
     Dir dir_stats
       [(str ''app'', Dir dir_stats
          [(str ''server.js'', File \<lparr>stat_size = 2048, birthtime = 50\<rparr>),
           (str ''anhkiniem'', Dir dir_stats [])])]"

definition absent_fs :: node where
  "absent_fs =
     Dir dir_stats
       [(str ''app'', Dir dir_stats
          [(str ''server.js'', File \<lparr>stat_size = 2048, birthtime = 50\<rparr>)])]"

text \<open>File parts of upload requests.\<close>

definition pdf_part :: file_part where
  "pdf_part = \<lparr>fieldname = str ''memory'', originalname = str ''notes.pdf'',
               mimetype = str ''application/pdf'', part_bytes = 20 * 1024 * 1024 + 1\<rparr>"

definition jpg_part :: file_part where
  "jpg_part = \<lparr>fieldname = str ''memory'', originalname = str ''a.jpg'',
               mimetype = str ''image/jpg'', part_bytes = 10\<rparr>"



section \<open>Title and type of a stored file\<close>

text \<open>
  C2. For the stored filename \<open>1700000000000-123456789-My_Photo.png\<close> the Gallery Lister
  derives the title made of the fixed Vietnamese prefix (K, U+1EF7, space, n, i, U+1EC7,
  m, space) followed by \<open>My_Photo\<close>, and the type image.
\<close>

theorem title_derivation_example:
  "memory_of h fs dir (str ''1700000000000-123456789-My_Photo.png'') = Some m \<Longrightarrow>
   title m = [0x4B, 0x1EF7, 0x20, 0x6E, 0x69, 0x1EC7, 0x6D, 0x20] @ str ''My_Photo'' \<and>
   type m = Image_type"
proof -
  assume a: "memory_of h fs dir (str ''1700000000000-123456789-My_Photo.png'') = Some m"
  have t: "title_of_filename (str ''1700000000000-123456789-My_Photo.png'') =
      [0x4B, 0x1EF7, 0x20, 0x6E, 0x69, 0x1EC7, 0x6D, 0x20] @ str ''My_Photo''"
    by code_simp
  have y: "type_of_filename (str ''1700000000000-123456789-My_Photo.png'') = Image_type"
    by code_simp
  from a t y show ?thesis
    by (auto simp: memory_of_def Let_def split: sum.splits)
qed

theorem title_derivation_example_witness:
  "memory_of example_host example_fs (uploadDir example_host)
     (str ''1700000000000-123456789-My_Photo.png'') =
   Some \<lparr>filename = str ''1700000000000-123456789-My_Photo.png'', type = Image_type,
         title = [0x4B, 0x1EF7, 0x20, 0x6E, 0x69, 0x1EC7, 0x6D, 0x20] @ str ''My_Photo'',
         date = [], size_bytes = 10, created = 100\<rparr> \<and>
   title \<lparr>filename = str ''1700000000000-123456789-My_Photo.png'', type = Image_type,
         title = [0x4B, 0x1EF7, 0x20, 0x6E, 0x69, 0x1EC7, 0x6D, 0x20] @ str ''My_Photo'',
         date = [], size_bytes = 10, created = 100\<rparr> =
     [0x4B, 0x1EF7, 0x20, 0x6E, 0x69, 0x1EC7, 0x6D, 0x20] @ str ''My_Photo''"
proof -
  have a: "memory_of example_host example_fs (uploadDir example_host)
     (str ''1700000000000-123456789-My_Photo.png'') =
   Some \<lparr>filename = str ''1700000000000-123456789-My_Photo.png'', type = Image_type,
         title = [0x4B, 0x1EF7, 0x20, 0x6E, 0x69, 0x1EC7, 0x6D, 0x20] @ str ''My_Photo'',
         date = [], size_bytes = 10, created = 100\<rparr>"
    by code_simp
  from a title_derivation_example [OF a] show ?thesis
    by simp
qed

section \<open>Title recovery and filename generation\<close>

lemma digit_not_dash: "d < 10 \<Longrightarrow> (of_nat (48 + d) :: unit16) \<noteq> CHAR_DASH"
proof
  assume d: "d < 10" and e: "(of_nat (48 + d) :: unit16) = CHAR_DASH"
  have u1: "unat (of_nat (48 + d) :: unit16) = (48 + d) mod 2 ^ 16"
    by (simp only: unat_of_nat len_bit0 len_num1) simp
  have u2: "unat CHAR_DASH = 45"
    by (simp add: CHAR_DASH_def)
  from e have "unat (of_nat (48 + d) :: unit16) = unat CHAR_DASH"
    by (simp only:)
  with u1 u2 have "(48 + d) mod 2 ^ 16 = 45"
    by (simp only:)
  with d show False by simp
qed

lemma number_str_no_dash: "CHAR_DASH \<notin> set (number_str n)"
proof (induction n rule: number_str.induct)
  case (1 n)
  show ?case
  proof (cases "n < 10")
    case True
    then show ?thesis
      using digit_not_dash [of n] by (subst number_str.simps) auto
  next
    case False
    have "n mod 10 < 10" by simp
    then have "(of_nat (48 + n mod 10) :: unit16) \<noteq> CHAR_DASH"
      by (rule digit_not_dash)
    with False 1 show ?thesis
      by (subst number_str.simps) auto
  qed
qed

lemma split_str_not_Nil: "split_str c s \<noteq> []"
  by (induction s) (auto split: list.splits)

lemma split_str_append_sep:
  "c \<notin> set xs \<Longrightarrow> split_str c (xs @ c # ys) = xs # split_str c ys"
  by (induction xs) (auto split: list.splits simp: split_str_not_Nil)

lemma split_str_no_sep: "c \<notin> set s \<Longrightarrow> split_str c s = [s]"
  by (induction s) auto

lemma join_str_Cons: "ps \<noteq> [] \<Longrightarrow> join_str c (p # ps) = p @ c # join_str c ps"
  by (cases ps) auto

lemma join_split_str: "join_str c (split_str c s) = s"
proof (induction s)
  case Nil
  show ?case by simp
next
  case (Cons x xs)
  show ?case
  proof (cases "x = c")
    case True
    then show ?thesis
      using Cons split_str_not_Nil [of c xs] by (simp add: join_str_Cons)
  next
    case False
    obtain p ps where s: "split_str c xs = p # ps"
      using split_str_not_Nil [of c xs] by (cases "split_str c xs") auto
    with Cons have "p @ join_str c ([] # ps) = xs \<or> ps = [] \<and> p = xs"
      by (cases ps) auto
    with False s Cons show ?thesis
      by (cases ps) auto
  qed
qed

lemma first_split_str:
  "first_or_undefined (split_str c s) = takeWhile (\<lambda>x. x \<noteq> c) s"
  using split_str_not_Nil [of c]
  by (induction s) (auto simp: first_or_undefined_def split: list.splits)

text \<open>
  What title recovery returns for every generated name: the sanitized original name up to
  its first dot. Dashes in the original name are kept, since the two numbers in front
  contain none.
\<close>

lemma title_stem_of_generated:
  "title_stem (storage_filename now rnd orig) =
   takeWhile (\<lambda>x. x \<noteq> CHAR_DOT) (replace_whitespace orig)"
proof -
  have "split_str CHAR_DASH (storage_filename now rnd orig) =
      number_str now # number_str rnd # split_str CHAR_DASH (replace_whitespace orig)"
    using number_str_no_dash [of now] number_str_no_dash [of rnd]
    by (simp add: storage_filename_def split_str_append_sep)
  then show ?thesis
    by (simp add: title_stem_def join_split_str first_split_str)
qed

text \<open>
  C1. Title recovery against filename generation, at the original name
  \<open>IMG 2024.01.05.jpg\<close>: the generated storage name is
  \<open>1700000000000-123456789-IMG_2024.01.05.jpg\<close>, the title recovered from it ends at the
  first dot (\<open>IMG_2024\<close>), while the sanitized original name without its extension is
  \<open>IMG_2024.01.05\<close>.
\<close>

theorem title_recovery_multi_dot:
  "storage_filename 1700000000000 123456789 (str ''IMG 2024.01.05.jpg'') =
     str ''1700000000000-123456789-IMG_2024.01.05.jpg'' \<and>
   title_of_filename (str ''1700000000000-123456789-IMG_2024.01.05.jpg'') =
     [0x4B, 0x1EF7, 0x20, 0x6E, 0x69, 0x1EC7, 0x6D, 0x20] @ str ''IMG_2024'' \<and>
   name_without_extension (replace_whitespace (str ''IMG 2024.01.05.jpg'')) =
     str ''IMG_2024.01.05''"
proof -
  have n: "number_str 1700000000000 = str ''1700000000000''"
    "number_str 123456789 = str ''123456789''"
    by (simp_all add: number_str.simps str_def)
  have w: "replace_whitespace (str ''IMG 2024.01.05.jpg'') = str ''IMG_2024.01.05.jpg''"
    by code_simp
  have a: "storage_filename 1700000000000 123456789 (str ''IMG 2024.01.05.jpg'') =
     str ''1700000000000-123456789-IMG_2024.01.05.jpg''"
    unfolding storage_filename_def Let_def n w by (simp add: str_def CHAR_DASH_def)
  have b: "title_of_filename (str ''1700000000000-123456789-IMG_2024.01.05.jpg'') =
     [0x4B, 0x1EF7, 0x20, 0x6E, 0x69, 0x1EC7, 0x6D, 0x20] @ str ''IMG_2024''"
    by code_simp
  have c: "name_without_extension (replace_whitespace (str ''IMG 2024.01.05.jpg'')) =
     str ''IMG_2024.01.05''"
    by code_simp
  from a b c show ?thesis by simp
qed

section \<open>Listing\<close>

text \<open>
  C8. Listing an absent storage directory, or a storage directory without entries, gives
  status 200 with the empty sequence, never an error.
\<close>

theorem list_empty_or_absent:
  "(\<not> existsSync fs (uploadDir h) \<longrightarrow>
      api_memories h fs = \<lparr>status = 200, body = Memories []\<rparr>) \<and>
   (lookup fs (fst (uploadDir h)) = Inr (Dir st []) \<longrightarrow>
      api_memories h fs = \<lparr>status = 200, body = Memories []\<rparr>)"
  by (auto simp: api_memories_def uploadDir_def Let_def readdirSync_def sort_by_def
        List.map_filter_simps split: sum.splits node.splits)

theorem list_empty_or_absent_witness:
  "\<not> existsSync absent_fs (uploadDir example_host) \<and>
   api_memories example_host absent_fs = \<lparr>status = 200, body = Memories []\<rparr> \<and>
   lookup empty_fs (fst (uploadDir example_host)) = Inr (Dir dir_stats []) \<and>
   api_memories example_host empty_fs = \<lparr>status = 200, body = Memories []\<rparr>"
proof -
  have a: "\<not> existsSync absent_fs (uploadDir example_host)"
    by code_simp
  have b: "lookup empty_fs (fst (uploadDir example_host)) = Inr (Dir dir_stats [])"
    by code_simp
  from a b list_empty_or_absent [of absent_fs example_host]
    list_empty_or_absent [of empty_fs example_host dir_stats]
  show ?thesis
    by simp
qed

lemma set_insert_by: "set (insert_by cmp x xs) = insert x (set xs)"
  by (induction xs) auto

lemma mset_insert_by: "mset (insert_by cmp x xs) = add_mset x (mset xs)"
  by (induction xs) auto

lemma mset_sort_by: "mset (sort_by cmp xs) = mset xs"
  by (induction xs) (simp_all add: sort_by_def mset_insert_by)

lemma sorted_insert_newest:
  "sorted_wrt (\<lambda>a b. created b \<le> created a) xs \<Longrightarrow>
   sorted_wrt (\<lambda>a b. created b \<le> created a) (insert_by newest_first x xs)"
proof (induction xs)
  case Nil
  then show ?case by simp
next
  case (Cons y ys)
  show ?case
  proof (cases "newest_first x y \<le> 0")
    case True
    then have "created y \<le> created x" by (simp add: newest_first_def)
    with Cons.prems True show ?thesis by auto
  next
    case False
    then have "created x \<le> created y" by (simp add: newest_first_def)
    with Cons False show ?thesis by (auto simp: set_insert_by)
  qed
qed

lemma sorted_sort_newest:
  "sorted_wrt (\<lambda>a b. created b \<le> created a) (sort_by newest_first xs)"
proof (induction xs)
  case Nil
  show ?case by (simp add: sort_by_def)
next
  case (Cons x xs)
  then show ?case
    using sorted_insert_newest [of "sort_by newest_first xs" x]
    by (simp add: sort_by_def)
qed

lemma descending_three:
  fixes ts :: "int list"
  assumes "sorted_wrt (\<lambda>a b. b \<le> a) ts" and "mset ts = {#t1, t2, t3#}"
    and "t1 < t2" and "t2 < t3"
  shows "ts = [t3, t2, t1]"
proof -
  have "sorted (rev ts)"
    using assms(1) by (simp add: sorted_wrt_rev)
  moreover have "mset (rev ts) = mset [t1, t2, t3]"
    using assms(2) by simp
  moreover have "sorted [t1, t2, t3]"
    using assms(3,4) by simp
  ultimately have "rev ts = [t1, t2, t3]"
    by (metis properties_for_sort)
  then have "rev (rev ts) = rev [t1, t2, t3]" by simp
  then show ?thesis by simp
qed

lemma api_memories_ok:
  "api_memories h fs = \<lparr>status = 200, body = Memories ms\<rparr> \<Longrightarrow>
   ms = [] \<or> (\<exists>xs. ms = sort_by newest_first xs)"
  by (auto simp: api_memories_def Let_def split: if_splits sum.splits)

text \<open>
  C6. A successful listing is in descending order of \<open>created\<close>; a listing of items
  created at \<open>t1 < t2 < t3\<close> has them in the order \<open>t3, t2, t1\<close>.
\<close>

theorem list_newest_first:
  "api_memories h fs = \<lparr>status = 200, body = Memories ms\<rparr> \<Longrightarrow>
   sorted_wrt (\<lambda>a b. created b \<le> created a) ms \<and>
   (t1 < t2 \<and> t2 < t3 \<and> mset (map created ms) = {#t1, t2, t3#} \<longrightarrow>
      map created ms = [t3, t2, t1])"
proof -
  assume a: "api_memories h fs = \<lparr>status = 200, body = Memories ms\<rparr>"
  have s: "sorted_wrt (\<lambda>a b. created b \<le> created a) ms"
    using api_memories_ok [OF a] sorted_sort_newest by auto
  then have "sorted_wrt (\<lambda>a b. b \<le> a) (map created ms)"
    by (simp add: sorted_wrt_map)
  with s show ?thesis
    using descending_three [of "map created ms" t1 t2 t3] by blast
qed

theorem list_newest_first_witness:
  "api_memories example_host example_fs =
     \<lparr>status = 200, body = Memories
        [\<lparr>filename = str ''3-4-c.txt'', type = Unknown_type,
          title = [0x4B, 0x1EF7, 0x20, 0x6E, 0x69, 0x1EC7, 0x6D, 0x20] @ str ''c'',
          date = [], size_bytes = 30, created = 300\<rparr>,
         \<lparr>filename = str ''1-2-b.mp4'', type = Video_type,
          title = [0x4B, 0x1EF7, 0x20, 0x6E, 0x69, 0x1EC7, 0x6D, 0x20] @ str ''b'',
          date = [], size_bytes = 20, created = 200\<rparr>,
         \<lparr>filename = photo_name, type = Image_type,
          title = [0x4B, 0x1EF7, 0x20, 0x6E, 0x69, 0x1EC7, 0x6D, 0x20] @ str ''My_Photo'',
          date = [], size_bytes = 10, created = 100\<rparr>]\<rparr> \<and>
   map created
        [\<lparr>filename = str ''3-4-c.txt'', type = Unknown_type,
          title = [0x4B, 0x1EF7, 0x20, 0x6E, 0x69, 0x1EC7, 0x6D, 0x20] @ str ''c'',
          date = [], size_bytes = 30, created = 300\<rparr>,
         \<lparr>filename = str ''1-2-b.mp4'', type = Video_type,
          title = [0x4B, 0x1EF7, 0x20, 0x6E, 0x69, 0x1EC7, 0x6D, 0x20] @ str ''b'',
          date = [], size_bytes = 20, created = 200\<rparr>,
         \<lparr>filename = photo_name, type = Image_type,
          title = [0x4B, 0x1EF7, 0x20, 0x6E, 0x69, 0x1EC7, 0x6D, 0x20] @ str ''My_Photo'',
          date = [], size_bytes = 10, created = 100\<rparr>] = [300, 200, 100]"
proof -
  have a: "api_memories example_host example_fs =
     \<lparr>status = 200, body = Memories
        [\<lparr>filename = str ''3-4-c.txt'', type = Unknown_type,
          title = [0x4B, 0x1EF7, 0x20, 0x6E, 0x69, 0x1EC7, 0x6D, 0x20] @ str ''c'',
          date = [], size_bytes = 30, created = 300\<rparr>,
         \<lparr>filename = str ''1-2-b.mp4'', type = Video_type,
          title = [0x4B, 0x1EF7, 0x20, 0x6E, 0x69, 0x1EC7, 0x6D, 0x20] @ str ''b'',
          date = [], size_bytes = 20, created = 200\<rparr>,
         \<lparr>filename = photo_name, type = Image_type,
          title = [0x4B, 0x1EF7, 0x20, 0x6E, 0x69, 0x1EC7, 0x6D, 0x20] @ str ''My_Photo'',
          date = [], size_bytes = 10, created = 100\<rparr>]\<rparr>"
    by code_simp
  from a list_newest_first [OF a, of 100 200 300] show ?thesis
    by simp
qed

lemma filenames_map_filter:
  "map filename (List.map_filter (memory_of h fs (uploadDir h)) names) =
   filter (readable h fs) names"
  by (induction names)
     (auto simp: List.map_filter_simps memory_of_def readable_def Let_def split: sum.splits)

text \<open>
  C9. When the storage directory can be enumerated, the listing succeeds whatever the
  state of its entries: the entries whose metadata cannot be read are left out, and
  every other entry is listed, as often as the directory names it.
\<close>

theorem unreadable_entries_skipped:
  "readdirSync fs (uploadDir h) = Inr names \<Longrightarrow>
   \<exists>ms. api_memories h fs = \<lparr>status = 200, body = Memories ms\<rparr> \<and>
        mset (map filename ms) = mset (filter (readable h fs) names)"
proof -
  assume a: "readdirSync fs (uploadDir h) = Inr names"
  then have e: "existsSync fs (uploadDir h)"
    by (auto simp: readdirSync_def existsSync_def statSync_def split: sum.splits node.splits)
  let ?ms = "sort_by newest_first (List.map_filter (memory_of h fs (uploadDir h)) names)"
  have "api_memories h fs = \<lparr>status = 200, body = Memories ?ms\<rparr>"
    using a e by (simp add: api_memories_def uploadDir_def Let_def)
  moreover have "mset (map filename ?ms) = mset (filter (readable h fs) names)"
    using filenames_map_filter [of h fs names] mset_sort_by [of newest_first]
    by (metis mset_map)
  ultimately show ?thesis by blast
qed

theorem unreadable_entries_skipped_witness:
  "readdirSync example_fs (uploadDir example_host) =
     Inr [str ''1-2-b.mp4'', str ''link'', photo_name, str ''3-4-c.txt''] \<and>
   filter (readable example_host example_fs)
     [str ''1-2-b.mp4'', str ''link'', photo_name, str ''3-4-c.txt''] =
     [str ''1-2-b.mp4'', photo_name, str ''3-4-c.txt''] \<and>
   (\<exists>ms. api_memories example_host example_fs = \<lparr>status = 200, body = Memories ms\<rparr> \<and>
         mset (map filename ms) = mset [str ''1-2-b.mp4'', photo_name, str ''3-4-c.txt''])"
proof -
  have a: "readdirSync example_fs (uploadDir example_host) =
     Inr [str ''1-2-b.mp4'', str ''link'', photo_name, str ''3-4-c.txt'']"
    by code_simp
  have b: "filter (readable example_host example_fs)
     [str ''1-2-b.mp4'', str ''link'', photo_name, str ''3-4-c.txt''] =
     [str ''1-2-b.mp4'', photo_name, str ''3-4-c.txt'']"
    by code_simp
  from a b unreadable_entries_skipped [OF a] show ?thesis
    by simp
qed

section \<open>Deleting\<close>

text \<open>
  C10. Deletion is atomic on error: whenever the answer is NotFound (status 404) the file
  system is exactly what it was, since existence is tested before anything is removed.
\<close>

theorem delete_not_found_unchanged:
  "status (snd (delete_file h fs name)) = 404 \<Longrightarrow> fst (delete_file h fs name) = fs"
  by (auto simp: delete_file_def Let_def split: if_splits sum.splits)

theorem delete_not_found_unchanged_witness:
  "status (snd (delete_file example_host example_fs (str ''nothing.png''))) = 404 \<and>
   fst (delete_file example_host example_fs (str ''nothing.png'')) = example_fs"
proof -
  have a: "status (snd (delete_file example_host example_fs (str ''nothing.png''))) = 404"
    by code_simp
  from a delete_not_found_unchanged [OF a] show ?thesis
    by simp
qed

lemma normalize_parts_append:
  "normalize_parts res (xs @ ys) = normalize_parts (normalize_parts res xs) ys"
  by (induction xs arbitrary: res) auto

lemma uploadDir_parts:
  "uploadDir h = (normalize_parts [] (fst (dirname h) @ [str ''anhkiniem'']), False)"
  by (simp add: uploadDir_def path_join_def str_def CHAR_FORWARD_SLASH_def Let_def)

lemma delete_path_of_component:
  assumes "is_component name"
  shows "path_join (dirname h) [str ''anhkiniem'', name] = (fst (uploadDir h) @ [name], False)"
proof -
  from assms have ne: "name \<noteq> []" and ns: "CHAR_FORWARD_SLASH \<notin> set name"
    and nd: "name \<noteq> str ''.''" "name \<noteq> str ''..''"
    by (simp_all add: is_component_def)
  have a: "CHAR_FORWARD_SLASH \<notin> set (str ''anhkiniem'')"
    by (simp add: str_def CHAR_FORWARD_SLASH_def)
  have sp: "split_str CHAR_FORWARD_SLASH (str ''anhkiniem'' @ CHAR_FORWARD_SLASH # name) =
      [str ''anhkiniem'', name]"
    using a ns by (simp add: split_str_append_sep split_str_no_sep)
  have "last name \<in> set name"
    using ne by simp
  with ns have "last name \<noteq> CHAR_FORWARD_SLASH"
    by metis
  with ne have l: "last (str ''anhkiniem'' @ CHAR_FORWARD_SLASH # name) \<noteq> CHAR_FORWARD_SLASH"
    by simp
  have n: "normalize_parts [] (fst (dirname h) @ [str ''anhkiniem'', name]) =
      normalize_parts [] (fst (dirname h) @ [str ''anhkiniem'']) @ [name]"
    using normalize_parts_append [of "[]" "fst (dirname h) @ [str ''anhkiniem'']" "[name]"]
      ne nd by simp
  have f: "filter (\<lambda>a. a \<noteq> []) [str ''anhkiniem'', name] = [str ''anhkiniem'', name]"
    using ne by (simp add: str_def)
  show ?thesis
    unfolding path_join_def Let_def f uploadDir_parts
    using sp l n by simp
qed

lemma map_of_filter_other:
  "d \<noteq> c \<Longrightarrow> map_of (filter (\<lambda>e. fst e \<noteq> c) es) d = map_of es d"
  by (induction es) auto


lemma map_of_map_entry:
  "map_of (map (\<lambda>e. if fst e = c then (fst e, g (snd e)) else e) es) d =
   (if d = c then map_option g (map_of es c) else map_of es d)"
  by (induction es) auto

lemma lookup_remove_other:
  "lookup fs p = Inr (File st) \<Longrightarrow> \<not> prefix q p \<Longrightarrow>
   lookup (remove_entry fs q) p = Inr (File st)"
proof (induction q arbitrary: fs p)
  case Nil
  then show ?case by simp
next
  case (Cons c cs)
  show ?case
  proof (cases fs)
    case (Dir s es)
    show ?thesis
    proof (cases p)
      case Nil
      with Cons.prems Dir show ?thesis by simp
    next
      case p: (Cons d ds)
      show ?thesis
      proof (cases cs)
        case Nil
        with Cons.prems Dir p show ?thesis
          by (auto simp: map_of_filter_other split: option.splits)
      next
        case cs: (Cons v va)
        show ?thesis
        proof (cases "d = c")
          case True
          with Cons.prems Dir p obtain n where n: "map_of es c = Some n"
            and l: "lookup n ds = Inr (File st)" and np: "\<not> prefix cs ds"
            by (auto split: option.splits)
          from Cons.IH [OF l np] n True Dir p cs show ?thesis
            by (simp add: map_of_map_entry [where g = "\<lambda>n. remove_entry n (v # va)"])
        next
          case False
          with Cons.prems Dir p cs show ?thesis
            by (simp add: map_of_map_entry [where g = "\<lambda>n. remove_entry n (v # va)"])
        qed
      qed
    qed
  next
    case (File s)
    with Cons.prems show ?thesis by simp
  next
    case Dangling
    with Cons.prems show ?thesis by simp
  qed
qed

lemma lookup_prefix_dir:
  "lookup fs (q @ r) = Inr n \<Longrightarrow> r \<noteq> [] \<Longrightarrow> \<exists>st es. lookup fs q = Inr (Dir st es)"
proof (induction q arbitrary: fs)
  case Nil
  then show ?case by (cases fs; cases r) auto
next
  case (Cons c cs)
  then show ?case by (cases fs) (auto split: option.splits)
qed


lemma delete_file_cases:
  "fst (delete_file h fs name) = fs \<or>
   (\<exists>st. lookup fs (fst (path_join (dirname h) [str ''anhkiniem'', name])) = Inr (File st) \<and>
      fst (delete_file h fs name) =
        remove_entry fs (fst (path_join (dirname h) [str ''anhkiniem'', name])))"
  by (auto simp: delete_file_def Let_def unlinkSync_def existsSync_def statSync_def
        split: sum.splits node.splits if_splits)

text \<open>
  C3, as the code has it. A name with a traversal segment is not refused; the file that
  the normalised path names is removed wherever it lies. For a name that is one path
  component, deletion is confined to the storage directory: every file other than the
  entry of that name in the storage directory stays where it is, with its metadata.
\<close>

theorem delete_confined:
  assumes "is_component name" and "lookup fs p = Inr (File st)"
    and "p \<noteq> fst (uploadDir h) @ [name]"
  shows "lookup (fst (delete_file h fs name)) p = Inr (File st)"
proof -
  let ?q = "fst (uploadDir h) @ [name]"
  have q: "fst (path_join (dirname h) [str ''anhkiniem'', name]) = ?q"
    using delete_path_of_component [OF assms(1)] by simp
  from delete_file_cases [of h fs name] show ?thesis
  proof
    assume "fst (delete_file h fs name) = fs"
    with assms(2) show ?thesis by simp
  next
    assume "\<exists>st. lookup fs (fst (path_join (dirname h) [str ''anhkiniem'', name])) =
        Inr (File st) \<and>
      fst (delete_file h fs name) =
        remove_entry fs (fst (path_join (dirname h) [str ''anhkiniem'', name]))"
    then obtain st' where l: "lookup fs ?q = Inr (File st')"
      and r: "fst (delete_file h fs name) = remove_entry fs ?q"
      using q by auto
    have "\<not> prefix ?q p"
    proof
      assume "prefix ?q p"
      then obtain r where p: "p = ?q @ r"
        by (auto simp: prefix_def)
      with assms(3) have "r \<noteq> []" by auto
      with assms(2) p lookup_prefix_dir [of fs ?q r "File st"] l show False
        by auto
    qed
    with assms(2) r show ?thesis
      by (simp add: lookup_remove_other)
  qed
qed

theorem delete_confined_witness:
  "is_component photo_name \<and>
   lookup example_fs [str ''app'', str ''server.js''] =
     Inr (File \<lparr>stat_size = 2048, birthtime = 50\<rparr>) \<and>
   [str ''app'', str ''server.js''] \<noteq> fst (uploadDir example_host) @ [photo_name] \<and>
   snd (delete_file example_host example_fs photo_name) =
     \<lparr>status = 200, body = Deleted File_deleted\<rparr> \<and>
   lookup (fst (delete_file example_host example_fs photo_name)) [str ''app'', str ''server.js''] =
     Inr (File \<lparr>stat_size = 2048, birthtime = 50\<rparr>)"
proof -
  have a: "is_component photo_name"
    by code_simp
  have b: "lookup example_fs [str ''app'', str ''server.js''] =
     Inr (File \<lparr>stat_size = 2048, birthtime = 50\<rparr>)"
    by code_simp
  have c: "[str ''app'', str ''server.js''] \<noteq> fst (uploadDir example_host) @ [photo_name]"
    by code_simp
  have d: "snd (delete_file example_host example_fs photo_name) =
     \<lparr>status = 200, body = Deleted File_deleted\<rparr>"
    by code_simp
  from a b c d delete_confined [OF a b c] show ?thesis
    by simp
qed

text \<open>
  C3 as stated fails: the name \<open>../server.js\<close> has a traversal segment, the request is
  answered with success, and the file \<open>server.js\<close> beside the storage directory is gone.
\<close>

theorem delete_traversal_counterexample:
  "has_traversal_segment (str ''../server.js'') \<and>
   fst (uploadDir example_host) = [str ''app'', str ''anhkiniem''] \<and>
   lookup example_fs [str ''app'', str ''server.js''] =
     Inr (File \<lparr>stat_size = 2048, birthtime = 50\<rparr>) \<and>
   snd (delete_file example_host example_fs (str ''../server.js'')) =
     \<lparr>status = 200, body = Deleted File_deleted\<rparr> \<and>
   lookup (fst (delete_file example_host example_fs (str ''../server.js'')))
     [str ''app'', str ''server.js''] = Inl ENOENT"
  by code_simp




section \<open>Uploading\<close>

lemmas upload_ev = post_upload_def upload_single_def fileFilter_def destination_def uploadDir_def
  path_join_def existsSync_def statSync_def mkdirSync_def writeFile_def storage_filename_def
  replace_whitespace_def is_space_def number_str.simps error_middleware_def allowedImageTypes_def
  allowedVideoTypes_def fileSize_def limit_reached_def str_def CHAR_FORWARD_SLASH_def
  CHAR_DASH_def example_host_def empty_fs_def dir_stats_def Let_def

lemma mime_lists:
  "set allowedImageTypes \<union> set allowedVideoTypes =
     {str ''image/jpeg'', str ''image/jpg'', str ''image/png'', str ''image/gif'',
      str ''image/webp'', str ''video/mp4'', str ''video/avi'', str ''video/mov'',
      str ''video/wmv'', str ''video/flv'', str ''video/webm''}"
  unfolding allowedImageTypes_def allowedVideoTypes_def by auto

text \<open>
  C4, as the code has it. An upload with a named file in the field \<open>memory\<close> whose
  declared type is none of \<open>image/jpeg\<close>, \<open>image/jpg\<close>, \<open>image/png\<close>, \<open>image/gif\<close>,
  \<open>image/webp\<close>, \<open>video/mp4\<close>, \<open>video/avi\<close>, \<open>video/mov\<close>, \<open>video/wmv\<close>,
  \<open>video/flv\<close>, \<open>video/webm\<close> is refused by \<open>fileFilter\<close> with its error of an unsupported
  type; that error is what the upload middleware hands on and what the failure body of
  the answer carries, and the file system stays as it was. Every upload with a declared
  type of that list passes the type check.
\<close>

theorem type_check:
  "(fieldname f = str ''memory'' \<and> originalname f \<noteq> [] \<and>
    mimetype f \<notin> {str ''image/jpeg'', str ''image/jpg'', str ''image/png'', str ''image/gif'',
      str ''image/webp'', str ''video/mp4'', str ''video/avi'', str ''video/mov'',
      str ''video/wmv'', str ''video/flv'', str ''video/webm''} \<longrightarrow>
      fileFilter f = Inl (PlainError Only_images_and_videos) \<and>
      upload_single h now rnd fs (Some f) =
        (fs, NextError (PlainError Only_images_and_videos)) \<and>
      (\<exists>r. post_upload h now rnd fs (Some f) = (fs, Some r) \<and>
           body r = Failure Only_images_and_videos)) \<and>
   (mimetype f \<in> {str ''image/jpeg'', str ''image/jpg'', str ''image/png'', str ''image/gif'',
      str ''image/webp'', str ''video/mp4'', str ''video/avi'', str ''video/mov'',
      str ''video/wmv'', str ''video/flv'', str ''video/webm''} \<longrightarrow>
      fileFilter f = Inr True)"
proof -
  have ff: "fileFilter f =
     (if mimetype f \<in> set allowedImageTypes \<union> set allowedVideoTypes then Inr True
      else Inl (PlainError Only_images_and_videos))"
    by (simp add: fileFilter_def)
  have "fileFilter f = Inl (PlainError Only_images_and_videos) \<and>
      upload_single h now rnd fs (Some f) =
        (fs, NextError (PlainError Only_images_and_videos)) \<and>
      (\<exists>r. post_upload h now rnd fs (Some f) = (fs, Some r) \<and>
           body r = Failure Only_images_and_videos)"
    if "fieldname f = str ''memory''" "originalname f \<noteq> []"
      "mimetype f \<notin> set allowedImageTypes \<union> set allowedVideoTypes"
    using that
    by (simp add: post_upload_def upload_single_def ff error_middleware_def)
  then show ?thesis
    unfolding mime_lists [symmetric] using ff by auto
qed

theorem type_check_witness:
  "fieldname pdf_part = str ''memory'' \<and> originalname pdf_part \<noteq> [] \<and>
   mimetype pdf_part = str ''application/pdf'' \<and>
   fileFilter pdf_part = Inl (PlainError Only_images_and_videos) \<and>
   upload_single example_host 17 5 empty_fs (Some pdf_part) =
     (empty_fs, NextError (PlainError Only_images_and_videos)) \<and>
   (\<exists>r. post_upload example_host 17 5 empty_fs (Some pdf_part) = (empty_fs, Some r) \<and>
        body r = Failure Only_images_and_videos) \<and>
   mimetype jpg_part = str ''image/jpg'' \<and> fileFilter jpg_part = Inr True"
proof -
  have a: "fieldname pdf_part = str ''memory''" "originalname pdf_part \<noteq> []"
    "mimetype pdf_part = str ''application/pdf''"
    by (simp_all add: pdf_part_def str_def)
  have b: "mimetype jpg_part = str ''image/jpg''"
    by (simp add: jpg_part_def)
  have c: "str ''application/pdf'' \<notin> {str ''image/jpeg'', str ''image/jpg'', str ''image/png'',
      str ''image/gif'', str ''image/webp'', str ''video/mp4'', str ''video/avi'',
      str ''video/mov'', str ''video/wmv'', str ''video/flv'', str ''video/webm''}"
    by (simp add: str_def)
  from a b c type_check [of pdf_part example_host 17 5 empty_fs]
    type_check [of jpg_part example_host 17 5 empty_fs]
  show ?thesis
    by simp
qed

text \<open>
  C4 as stated fails: \<open>image/jpg\<close> is not in the allow-list that the specification
  words, and an upload declared so is accepted and stored.
\<close>

theorem type_check_counterexample:
  "mimetype jpg_part = str ''image/jpg'' \<and> str ''image/jpg'' \<notin> set spec_allow_list \<and>
   fileFilter jpg_part = Inr True \<and>
   snd (post_upload example_host 17 5 empty_fs (Some jpg_part)) =
     Some \<lparr>status = 200, body = Uploaded (str ''17-5-a.jpg'') Upload_succeeded 10\<rparr>"
proof -
  have "str ''image/jpg'' \<notin> set spec_allow_list"
    by (simp add: spec_allow_list_def str_def)
  moreover have "snd (post_upload example_host 17 5 empty_fs (Some jpg_part)) =
     Some \<lparr>status = 200, body = Uploaded (str ''17-5-a.jpg'') Upload_succeeded 10\<rparr>"
    by (simp add: upload_ev jpg_part_def)
  moreover have "fileFilter jpg_part = Inr True" "mimetype jpg_part = str ''image/jpg''"
    by (simp_all add: fileFilter_def jpg_part_def allowedImageTypes_def)
  ultimately show ?thesis by simp
qed

text \<open>
  The error of \<open>fileFilter\<close> is a plain error, not one of the upload library; the error
  middleware answers it with status 500.
\<close>

lemma refused_type_status:
  "fieldname f = str ''memory'' \<Longrightarrow> originalname f \<noteq> [] \<Longrightarrow>
   mimetype f \<notin> set allowedImageTypes \<union> set allowedVideoTypes \<Longrightarrow>
   post_upload h now rnd fs (Some f) =
     (fs, Some \<lparr>status = 500, body = Failure Only_images_and_videos\<rparr>)"
  by (simp add: post_upload_def upload_single_def fileFilter_def error_middleware_def)








end
